theory Spec2Isabelle
  imports Complex_Main "HOL-Library.Sublist"
begin

section \<open>Data model (types/business.ts)\<close>

text \<open>
  The records of the admin application. A TypeScript \<open>number\<close> that holds a count is an
  \<open>int\<close>, a utilisation percentage is a \<open>real\<close>, \<open>Record<string, string>\<close> is an
  association list. At run time the status of a cluster is a string (the union type
  \<open>'running' | 'stopped' | 'error' | 'pending'\<close> is erased), and the list view compares
  it with the string of the search form, so it is a \<open>string\<close> here.
\<close>

record ClusterInfo =
  id_field :: string
  name :: string
  version :: string
  status :: string
  nodeCount :: int
  podCount :: int
  namespace :: string
  apiServer :: string
  createdAt :: string
  cpuUsage :: real
  memoryUsage :: real
  diskUsage :: real
  labels :: "(string \<times> string) list"
  description :: string

record NodeInfo =
  node_name :: string
  node_status :: string
  node_role :: string
  node_ip :: string
  node_os :: string
  kubeletVersion :: string
  node_cpu :: string
  node_memory :: string

record PodInfo =
  pod_name :: string
  pod_namespace :: string
  pod_status :: string
  restarts :: int
  age :: string
  pod_node :: string
  pod_ip :: string

datatype EventType = Normal | Warning

record EventInfo =
  event_type :: EventType
  reason :: string
  message :: string
  timestamp :: string

section \<open>JavaScript primitives used by the views\<close>

text \<open>
  \<open>String.prototype.toLowerCase\<close> on the characters a \<open>char\<close> can hold: the letters
  \<open>A\<close> to \<open>Z\<close> go to \<open>a\<close> to \<open>z\<close>, every other character stays.
\<close>

definition toLowerCase_char :: "char \<Rightarrow> char" where
  "toLowerCase_char c =
     (let n = (of_char c :: nat) in if 65 \<le> n \<and> n \<le> 90 then char_of (n + 32) else c)"

definition toLowerCase :: "string \<Rightarrow> string" where
  "toLowerCase s = map toLowerCase_char s"

text \<open>\<open>String.prototype.startsWith\<close> and \<open>String.prototype.includes\<close>, by search.\<close>

fun startsWith :: "string \<Rightarrow> string \<Rightarrow> bool" where
  "startsWith s [] = True"
| "startsWith [] (p # ps) = False"
| "startsWith (c # cs) (p # ps) = (c = p \<and> startsWith cs ps)"

fun includes_str :: "string \<Rightarrow> string \<Rightarrow> bool" where
  "includes_str [] sub = (sub = [])"
| "includes_str (c # cs) sub = (startsWith (c # cs) sub \<or> includes_str cs sub)"

text \<open>
  \<open>Array.prototype.slice(start, end)\<close>: a negative index counts from the end of the
  array, both indices are clamped to the array, and an empty range gives the empty array.
\<close>

definition slice :: "'a list \<Rightarrow> int \<Rightarrow> int \<Rightarrow> 'a list" where
  "slice xs start fin =
     (let len = int (length xs);
          k = (if start < 0 then max (len + start) 0 else min start len);
          final = (if fin < 0 then max (len + fin) 0 else min fin len)
      in take (nat (final - k)) (drop (nat k) xs))"

section \<open>List view (views/cluster/list.vue): filtering and pagination\<close>

text \<open>
  \<open>filteredData\<close>, \<open>total\<close> and \<open>tableData\<close> are computed values of the collection
  \<open>mockClusters\<close>, the two fields of \<open>searchForm\<close>, \<open>currentPage\<close> and \<open>pageSize\<close>.
  A JavaScript string is truthy when it is not empty.
\<close>

definition filteredData :: "ClusterInfo list \<Rightarrow> string \<Rightarrow> string \<Rightarrow> ClusterInfo list" where
  "filteredData mockClusters form_name form_status =
     (let data = mockClusters;
          data = (if form_name \<noteq> []
                  then filter (\<lambda>item. includes_str (toLowerCase (name item)) (toLowerCase form_name)) data
                  else data);
          data = (if form_status \<noteq> []
                  then filter (\<lambda>item. status item = form_status) data
                  else data)
      in data)"

definition total :: "ClusterInfo list \<Rightarrow> string \<Rightarrow> string \<Rightarrow> nat" where
  "total mockClusters form_name form_status = length (filteredData mockClusters form_name form_status)"

definition tableData :: "ClusterInfo list \<Rightarrow> string \<Rightarrow> string \<Rightarrow> int \<Rightarrow> int \<Rightarrow> ClusterInfo list" where
  "tableData mockClusters form_name form_status currentPage pageSize =
     (let start = (currentPage - 1) * pageSize
      in slice (filteredData mockClusters form_name form_status) start (start + pageSize))"

text \<open>A collection of \<open>n\<close> clusters with distinct identifiers, used for concrete runs.\<close>

definition sample_cluster :: "nat \<Rightarrow> ClusterInfo" where
  "sample_cluster i =
     \<lparr> id_field = ''cluster-'' @ replicate i (CHR ''i''),
       name = (if even i then ''Prod-Cluster'' else ''test-cluster''),
       version = ''v1.28.0'',
       status = (if i mod 2 = 1 then ''running'' else ''stopped''),
       nodeCount = 3, podCount = 12,
       namespace = ''default'', apiServer = ''https://10.0.0.1:6443'',
       createdAt = ''2024-01-01 00:00:00'',
       cpuUsage = 50, memoryUsage = 60, diskUsage = 40,
       labels = [(''env'', ''prod'')], description = [] \<rparr>"

definition sample_clusters :: "nat \<Rightarrow> ClusterInfo list" where
  "sample_clusters n = map sample_cluster [0..<n]"

section \<open>List view: state and handlers\<close>

text \<open>
  The user-facing texts of the application are Chinese string literals; each is named by
  a constructor, with the interpolated value as its argument.
\<close>

datatype ui_text =
    Text_select_rows_to_delete
  | Text_confirm_batch_delete nat
  | Text_batch_delete_done_simulated
  | Text_confirm_delete string
  | Text_delete_done_simulated
  | Text_data_refreshed
  | Text_create_cluster_simulated
  | Text_refreshed

text \<open>What a handler does to its collaborators, in the order it does it.\<close>

datatype effect =
    ElMessage_warning ui_text
  | ElMessage_success ui_text
  | ElMessage_info ui_text
  | ElMessageBox_confirm ui_text
  | Router_push string

text \<open>
  \<open>ElMessageBox.confirm\<close> returns a promise: it resolves when the user confirms and
  rejects when the user cancels or closes the dialog.
\<close>

datatype confirm_answer = Confirmed | Cancelled

text \<open>The two callbacks the list view passes to \<open>setTimeout\<close>.\<close>

datatype timeout_callback = Search_done | Refresh_done

record ListView =
  clusters :: "ClusterInfo list"
  searchForm_name :: string
  searchForm_status :: string
  currentPage :: int
  pageSize :: int
  loading :: bool
  selectedRows :: "ClusterInfo list"
  timeouts :: "timeout_callback list"

definition list_view_init :: "ClusterInfo list \<Rightarrow> ListView" where
  "list_view_init mockClusters =
     \<lparr> clusters = mockClusters, searchForm_name = [], searchForm_status = [],
       currentPage = 1, pageSize = 10, loading = False, selectedRows = [], timeouts = [] \<rparr>"

text \<open>The computed values, read from a state of the view.\<close>

definition view_filteredData :: "ListView \<Rightarrow> ClusterInfo list" where
  "view_filteredData v = filteredData (clusters v) (searchForm_name v) (searchForm_status v)"

definition view_tableData :: "ListView \<Rightarrow> ClusterInfo list" where
  "view_tableData v =
     tableData (clusters v) (searchForm_name v) (searchForm_status v) (currentPage v) (pageSize v)"

text \<open>
  The template binds the name input and the status select to the search form with
  \<open>v-model\<close>, and the pagination to \<open>currentPage\<close> and \<open>pageSize\<close>: the widget writes
  the new value and no handler of the view runs.
\<close>

definition vmodel_searchForm_name :: "string \<Rightarrow> ListView \<Rightarrow> ListView" where
  "vmodel_searchForm_name val v = v\<lparr>searchForm_name := val\<rparr>"

definition vmodel_searchForm_status :: "string \<Rightarrow> ListView \<Rightarrow> ListView" where
  "vmodel_searchForm_status val v = v\<lparr>searchForm_status := val\<rparr>"

definition vmodel_currentPage :: "int \<Rightarrow> ListView \<Rightarrow> ListView" where
  "vmodel_currentPage val v = v\<lparr>currentPage := val\<rparr>"

definition vmodel_pageSize :: "int \<Rightarrow> ListView \<Rightarrow> ListView" where
  "vmodel_pageSize val v = v\<lparr>pageSize := val\<rparr>"


definition handleSearch :: "ListView \<Rightarrow> ListView" where
  "handleSearch v = v\<lparr>currentPage := 1, loading := True, timeouts := timeouts v @ [Search_done]\<rparr>"

definition handleReset :: "ListView \<Rightarrow> ListView" where
  "handleReset v = v\<lparr>searchForm_name := [], searchForm_status := [], currentPage := 1\<rparr>"

definition handleRefresh :: "ListView \<Rightarrow> ListView" where
  "handleRefresh v = v\<lparr>loading := True, timeouts := timeouts v @ [Refresh_done]\<rparr>"

text \<open>A pending timeout fires: its callback runs and the timeout is gone.\<close>

fun run_callback :: "timeout_callback \<Rightarrow> ListView \<Rightarrow> effect list \<times> ListView" where
  "run_callback Search_done v = ([], v\<lparr>loading := False\<rparr>)"
| "run_callback Refresh_done v = ([ElMessage_success Text_data_refreshed], v\<lparr>loading := False\<rparr>)"

definition timeout_fires :: "ListView \<Rightarrow> effect list \<times> ListView" where
  "timeout_fires v =
     (case timeouts v of
        [] \<Rightarrow> ([], v)
      | cb # rest \<Rightarrow> run_callback cb (v\<lparr>timeouts := rest\<rparr>))"

definition handleView :: "ClusterInfo \<Rightarrow> ListView \<Rightarrow> effect list \<times> ListView" where
  "handleView row v = ([Router_push (''/cluster/detail/'' @ id_field row)], v)"

text \<open>
  \<open>handleDelete\<close> and \<open>handleBatchDelete\<close> await the confirmation dialog inside
  \<open>try\<close>; the \<open>catch\<close> swallows the rejection. The answer of the user is an argument.
\<close>

definition handleDelete :: "ClusterInfo \<Rightarrow> confirm_answer \<Rightarrow> ListView \<Rightarrow> effect list \<times> ListView" where
  "handleDelete row answer v =
     (case answer of
        Confirmed \<Rightarrow>
          ([ElMessageBox_confirm (Text_confirm_delete (name row)),
            ElMessage_success Text_delete_done_simulated], v)
      | Cancelled \<Rightarrow> ([ElMessageBox_confirm (Text_confirm_delete (name row))], v))"

definition handleBatchDelete :: "confirm_answer \<Rightarrow> ListView \<Rightarrow> effect list \<times> ListView" where
  "handleBatchDelete answer v =
     (if length (selectedRows v) = 0
      then ([ElMessage_warning Text_select_rows_to_delete], v)
      else (case answer of
              Confirmed \<Rightarrow>
                ([ElMessageBox_confirm (Text_confirm_batch_delete (length (selectedRows v))),
                  ElMessage_success Text_batch_delete_done_simulated], v)
            | Cancelled \<Rightarrow>
                ([ElMessageBox_confirm (Text_confirm_batch_delete (length (selectedRows v)))], v)))"

definition handleCreate :: "ListView \<Rightarrow> effect list \<times> ListView" where
  "handleCreate v = ([ElMessage_info Text_create_cluster_simulated], v)"

text \<open>Counting effects of one kind in what a handler did.\<close>

fun is_warning :: "effect \<Rightarrow> bool" where
  "is_warning (ElMessage_warning t) = True"
| "is_warning e = False"

fun is_confirm :: "effect \<Rightarrow> bool" where
  "is_confirm (ElMessageBox_confirm t) = True"
| "is_confirm e = False"

section \<open>Status tags (list.vue and detail.vue)\<close>

text \<open>
  \<open>getStatusType\<close> reads a property of an object literal and applies \<open>||\<close>. Reading
  \<open>map[status]\<close> gives the own property of that name, else the member of that name the
  literal inherits from \<open>Object.prototype\<close> (a function, or the prototype object for
  \<open>__proto__\<close>), else \<open>undefined\<close>. \<open>a || b\<close> is \<open>a\<close> when \<open>a\<close> is truthy and \<open>b\<close>
  otherwise; \<open>undefined\<close> and the empty string are falsy, every object is truthy.
\<close>

datatype js_value = JsString string | JsUndefined | JsInherited string

definition object_prototype_members :: "string list" where
  "object_prototype_members =
     [''constructor'', ''hasOwnProperty'', ''isPrototypeOf'', ''propertyIsEnumerable'',
      ''toLocaleString'', ''toString'', ''valueOf'', ''__proto__'',
      ''__defineGetter__'', ''__defineSetter__'', ''__lookupGetter__'', ''__lookupSetter__'']"

definition js_get :: "(string \<times> string) list \<Rightarrow> string \<Rightarrow> js_value" where
  "js_get obj key =
     (case map_of obj key of
        Some v \<Rightarrow> JsString v
      | None \<Rightarrow> if key \<in> set object_prototype_members then JsInherited key else JsUndefined)"

fun js_truthy :: "js_value \<Rightarrow> bool" where
  "js_truthy (JsString s) = (s \<noteq> [])"
| "js_truthy JsUndefined = False"
| "js_truthy (JsInherited k) = True"

definition js_or :: "js_value \<Rightarrow> js_value \<Rightarrow> js_value" where
  "js_or a b = (if js_truthy a then a else b)"

definition status_map_list :: "(string \<times> string) list" where
  "status_map_list =
     [(''running'', ''success''), (''stopped'', ''info''),
      (''error'', ''danger''), (''pending'', ''warning'')]"

definition getStatusType_list :: "string \<Rightarrow> js_value" where
  "getStatusType_list st = js_or (js_get status_map_list st) (JsString ''info'')"

definition status_map_detail :: "(string \<times> string) list" where
  "status_map_detail =
     [(''running'', ''success''), (''stopped'', ''info''),
      (''error'', ''danger''), (''pending'', ''warning''),
      (''Running'', ''success''), (''Ready'', ''success''), (''NotReady'', ''danger''),
      (''Pending'', ''warning''), (''Failed'', ''danger''), (''CrashLoopBackOff'', ''danger''),
      (''Succeeded'', []), (''master'', ''warning''), (''worker'', [])]"

definition getStatusType_detail :: "string \<Rightarrow> js_value" where
  "getStatusType_detail st = js_or (js_get status_map_detail st) (JsString ''info'')"

section \<open>Detail view (views/cluster/detail.vue)\<close>

text \<open>
  A route parameter of vue-router is a string or an array of strings; \<open>===\<close> between a
  string and an array is false. \<open>Array.prototype.find\<close> gives the first element that
  satisfies the predicate, or \<open>undefined\<close>.
\<close>

datatype route_param = Param_string string | Param_array "string list"

definition cluster :: "ClusterInfo list \<Rightarrow> route_param \<Rightarrow> ClusterInfo option" where
  "cluster mockClusters route_params_id =
     find (\<lambda>c. Param_string (id_field c) = route_params_id) mockClusters"

text \<open>
  The template: without a cluster it renders an \<open>el-result\<close> whose \<open>extra\<close> slot holds the
  buttons of the page; with a cluster it renders the header and the tabs. The nodes,
  pods and events panes are bound to the imported \<open>mockNodes\<close>, \<open>mockPods\<close> and
  \<open>mockEvents\<close>.
\<close>

datatype detail_handler = HandleBack | HandleRefresh_detail

record detail_page =
  shown_cluster :: ClusterInfo
  header_buttons :: "detail_handler list"
  nodes_pane :: "NodeInfo list"
  pods_pane :: "PodInfo list"
  events_pane :: "EventInfo list"

datatype detail_render =
    El_result "detail_handler list"
  | Detail_page detail_page

definition render_detail ::
  "ClusterInfo list \<Rightarrow> NodeInfo list \<Rightarrow> PodInfo list \<Rightarrow> EventInfo list \<Rightarrow> route_param \<Rightarrow> detail_render" where
  "render_detail mockClusters mockNodes mockPods mockEvents route_params_id =
     (case cluster mockClusters route_params_id of
        None \<Rightarrow> El_result [HandleBack]
      | Some c \<Rightarrow>
          Detail_page \<lparr> shown_cluster = c, header_buttons = [HandleBack, HandleRefresh_detail],
                        nodes_pane = mockNodes, pods_pane = mockPods, events_pane = mockEvents \<rparr>)"

definition handleBack :: "effect list" where
  "handleBack = [Router_push ''/cluster'']"

text \<open>
  The refresh button of the detail view, with its timeout callback; the view has one kind
  of timeout, so the pending ones are counted.
\<close>

record DetailView =
  activeTab :: string
  detail_loading :: bool
  detail_timeouts :: nat

definition handleRefresh_detail :: "DetailView \<Rightarrow> DetailView" where
  "handleRefresh_detail v = v\<lparr>detail_loading := True, detail_timeouts := Suc (detail_timeouts v)\<rparr>"

definition handleRefresh_detail_timeout :: "DetailView \<Rightarrow> effect list \<times> DetailView" where
  "handleRefresh_detail_timeout v =
     ([ElMessage_success Text_refreshed],
      v\<lparr>detail_loading := False, detail_timeouts := detail_timeouts v - 1\<rparr>)"

text \<open>The panes of a rendered detail view; the not-found result has none.\<close>

fun rendered_nodes :: "detail_render \<Rightarrow> NodeInfo list option" where
  "rendered_nodes (El_result bs) = None"
| "rendered_nodes (Detail_page pg) = Some (nodes_pane pg)"

fun rendered_pods :: "detail_render \<Rightarrow> PodInfo list option" where
  "rendered_pods (El_result bs) = None"
| "rendered_pods (Detail_page pg) = Some (pods_pane pg)"

fun rendered_events :: "detail_render \<Rightarrow> EventInfo list option" where
  "rendered_events (El_result bs) = None"
| "rendered_events (Detail_page pg) = Some (events_pane pg)"

section \<open>Dashboard (views/dashboard/index.vue)\<close>

text \<open>
  The timers of the runtime are part of the state: \<open>setInterval\<close> registers a new
  interval under a fresh positive identifier and returns it, \<open>clearInterval\<close> removes
  the interval of that identifier. \<open>refreshTimer\<close> is the variable of the component;
  a timer identifier is truthy when it is not zero.
\<close>

record Statistics =
  totalClusters :: int
  runningClusters :: int
  totalNodes :: int
  totalPods :: int
  stat_cpuUsage :: real
  stat_memoryUsage :: real
  stat_diskUsage :: real
  networkTraffic :: real

record Dashboard =
  dash_loading :: bool
  statistics :: Statistics
  refreshTimer :: "nat option"
  intervals :: "nat list"
  next_timer_id :: nat


definition setInterval :: "Dashboard \<Rightarrow> nat \<times> Dashboard" where
  "setInterval d =
     (next_timer_id d,
      d\<lparr>intervals := intervals d @ [next_timer_id d], next_timer_id := Suc (next_timer_id d)\<rparr>)"

definition clearInterval :: "nat \<Rightarrow> Dashboard \<Rightarrow> Dashboard" where
  "clearInterval t d = d\<lparr>intervals := removeAll t (intervals d)\<rparr>"

definition handleAutoRefreshChange :: "bool \<Rightarrow> Dashboard \<Rightarrow> Dashboard" where
  "handleAutoRefreshChange val d =
     (if val then (let (t, d') = setInterval d in d'\<lparr>refreshTimer := Some t\<rparr>)
      else (case refreshTimer d of
              Some t \<Rightarrow> if t \<noteq> 0 then (clearInterval t d)\<lparr>refreshTimer := None\<rparr> else d
            | None \<Rightarrow> d))"



text \<open>
  \<open>refreshData\<close> is asynchronous. Up to the \<open>await\<close> it sets the loading flag; when the
  400 ms timer resolves the promise, the rest of the \<open>try\<close> block runs and then the
  \<open>finally\<close> block. The four results of \<open>Math.random\<close> are arguments. \<open>initCharts\<close>
  calls into the charting library and may throw; whether it does is an argument too, and
  the exception leaves \<open>refreshData\<close> after the \<open>finally\<close> block.
\<close>

datatype js_error = Chart_error

definition refreshData_begin :: "Dashboard \<Rightarrow> Dashboard" where
  "refreshData_begin d = d\<lparr>dash_loading := True\<rparr>"

definition refreshData_resume ::
  "real \<Rightarrow> real \<Rightarrow> real \<Rightarrow> real \<Rightarrow> bool \<Rightarrow> Dashboard \<Rightarrow> (js_error + unit) \<times> Dashboard" where
  "refreshData_resume r1 r2 r3 r4 initCharts_throws d =
     (let d1 = d\<lparr>statistics := (statistics d)
                  \<lparr>stat_cpuUsage := r1 * 30 + 50, stat_memoryUsage := r2 * 25 + 60,
                   stat_diskUsage := r3 * 20 + 35, networkTraffic := r4 * 500 + 800\<rparr>\<rparr>;
          outcome = (if initCharts_throws then Inl Chart_error else Inr ())
      in (outcome, d1\<lparr>dash_loading := False\<rparr>))"

section \<open>Concrete states for runs of the model\<close>

definition view_on_page3 :: ListView where
  "view_on_page3 = vmodel_currentPage 3 (list_view_init (sample_clusters 25))"


definition sample_nodes :: "NodeInfo list" where
  "sample_nodes =
     [\<lparr> node_name = ''node-1'', node_status = ''Ready'', node_role = ''master'',
        node_ip = ''10.0.0.11'', node_os = ''Ubuntu 22.04'', kubeletVersion = ''v1.28.0'',
        node_cpu = ''8 cores'', node_memory = ''32Gi'' \<rparr>]"

definition sample_pods :: "PodInfo list" where
  "sample_pods =
     [\<lparr> pod_name = ''web-0'', pod_namespace = ''default'', pod_status = ''Succeeded'',
        restarts = 0, age = ''3d'', pod_node = ''node-1'', pod_ip = ''10.244.0.5'' \<rparr>]"

definition sample_events :: "EventInfo list" where
  "sample_events =
     [\<lparr> event_type = Warning, reason = ''BackOff'', message = ''restarting'',
        timestamp = ''2024-01-01 00:00:00'' \<rparr>]"

section \<open>Properties of filtering and pagination\<close>



lemma slice_nonneg:
  assumes "0 \<le> start" and "0 \<le> n"
  shows "slice xs start (start + n) = take (nat n) (drop (nat start) xs)"
proof (cases "start \<le> int (length xs)")
  case True
  show ?thesis
  proof (cases "start + n \<le> int (length xs)")
    case True
    with assms \<open>start \<le> int (length xs)\<close> show ?thesis
      by (simp add: slice_def Let_def min_def)
  next
    case False
    with assms \<open>start \<le> int (length xs)\<close>
    have "nat (int (length xs) - start) = length (drop (nat start) xs)"
      and "length (drop (nat start) xs) \<le> nat n"
      by auto
    with assms \<open>start \<le> int (length xs)\<close> False show ?thesis
      by (simp add: slice_def Let_def min_def)
  qed
next
  case False
  with assms show ?thesis
    by (simp add: slice_def Let_def min_def)
qed



text \<open>
  Claim C2. For a page \<open>p \<ge> 1\<close> and a page size \<open>s \<ge> 0\<close> the visible page is the part of the
  filtered list from index \<open>(p - 1) * s\<close> up to \<open>(p - 1) * s + s\<close> (exclusive). It has at
  most \<open>s\<close> records, and a page that starts at or after the end of the filtered list is
  empty.
\<close>

theorem C2_tableData_slice:
  assumes "1 \<le> p" and "0 \<le> s"
  shows "tableData mockClusters form_name form_status p s =
           take (nat s) (drop (nat ((p - 1) * s)) (filteredData mockClusters form_name form_status))
         \<and> length (tableData mockClusters form_name form_status p s) \<le> nat s
         \<and> (int (length (filteredData mockClusters form_name form_status)) \<le> (p - 1) * s \<longrightarrow>
              tableData mockClusters form_name form_status p s = [])"
proof -
  from assms have "0 \<le> (p - 1) * s" by simp
  then have eq: "tableData mockClusters form_name form_status p s =
           take (nat s) (drop (nat ((p - 1) * s)) (filteredData mockClusters form_name form_status))"
    using assms(2) by (simp add: tableData_def Let_def slice_nonneg)
  show ?thesis
    unfolding eq using \<open>0 \<le> (p - 1) * s\<close> by auto
qed

text \<open>
  C2 on 25 records with page size 10 and no filter: pages 1, 3 and 4 hold 10, 5 and 0
  records.
\<close>

theorem C2_tableData_witness:
  "(1::int) \<le> 3 \<and> (0::int) \<le> 10
   \<and> length (tableData (sample_clusters 25) [] [] 1 10) = 10
   \<and> length (tableData (sample_clusters 25) [] [] 3 10) = 5
   \<and> tableData (sample_clusters 25) [] [] 4 10 = []"
  using C2_tableData_slice [of 1 10 "sample_clusters 25" "[]" "[]"]
        C2_tableData_slice [of 3 10 "sample_clusters 25" "[]" "[]"]
        C2_tableData_slice [of 4 10 "sample_clusters 25" "[]" "[]"]
  by (simp add: filteredData_def sample_clusters_def)

section \<open>Properties of the list view handlers\<close>

text \<open>The search and the reset handler set the current page to 1 from every state.\<close>

lemma handleSearch_resets_page: "currentPage (handleSearch v) = 1"
  by (simp add: handleSearch_def)

lemma handleReset_resets_page: "currentPage (handleReset v) = 1"
  by (simp add: handleReset_def)

text \<open>
  A write of the name input or of the status select changes the filtered list that is
  derived next and leaves the current page as it is.
\<close>

lemma vmodel_searchForm_keeps_page:
  "currentPage (vmodel_searchForm_name val v) = currentPage v
   \<and> currentPage (vmodel_searchForm_status val v) = currentPage v
   \<and> view_filteredData (vmodel_searchForm_name val v)
       = filteredData (clusters v) val (searchForm_status v)
   \<and> view_filteredData (vmodel_searchForm_status val v)
       = filteredData (clusters v) (searchForm_name v) val"
  by (simp add: vmodel_searchForm_name_def vmodel_searchForm_status_def view_filteredData_def)

text \<open>
  Claim C3, at a state the code reaches. The view shows page 3 of 25 clusters (5 rows).
  The status select writes \<open>running\<close> into the search form through \<open>v-model\<close>: the filter
  criteria have changed and 12 clusters match, the current page is still 3, and the
  visible page derived from that state is empty. Only a later \<open>handleSearch\<close> sets the
  page to 1.
\<close>

theorem C3_filter_change_keeps_page:
  "currentPage view_on_page3 = 3
   \<and> length (view_tableData view_on_page3) = 5
   \<and> searchForm_status (vmodel_searchForm_status ''running'' view_on_page3) = ''running''
   \<and> currentPage (vmodel_searchForm_status ''running'' view_on_page3) = 3
   \<and> length (view_filteredData (vmodel_searchForm_status ''running'' view_on_page3)) = 12
   \<and> view_tableData (vmodel_searchForm_status ''running'' view_on_page3) = []
   \<and> currentPage (handleSearch (vmodel_searchForm_status ''running'' view_on_page3)) = 1"
  by (simp add: view_on_page3_def vmodel_currentPage_def vmodel_searchForm_status_def
      list_view_init_def view_tableData_def view_filteredData_def tableData_def filteredData_def
      slice_def sample_clusters_def sample_cluster_def handleSearch_def upt_rec)

text \<open>
  Claim C4. When the selection is empty, the batch-delete handler shows exactly one
  warning and does nothing else, whatever the user would have answered: no confirmation
  dialog is opened, and the state of the view, with its selection and its collection,
  is returned as it was.
\<close>

theorem C4_batch_delete_empty_selection:
  assumes "selectedRows v = []"
  shows "handleBatchDelete answer v = ([ElMessage_warning Text_select_rows_to_delete], v)
         \<and> length (filter is_warning (fst (handleBatchDelete answer v))) = 1
         \<and> filter is_confirm (fst (handleBatchDelete answer v)) = []
         \<and> selectedRows (snd (handleBatchDelete answer v)) = selectedRows v
         \<and> clusters (snd (handleBatchDelete answer v)) = clusters v"
  using assms by (simp add: handleBatchDelete_def)

text \<open>C4 on the initial view of three clusters, where nothing is selected.\<close>

theorem C4_batch_delete_empty_witness:
  "selectedRows (list_view_init (sample_clusters 3)) = []
   \<and> handleBatchDelete Confirmed (list_view_init (sample_clusters 3)) =
       ([ElMessage_warning Text_select_rows_to_delete], list_view_init (sample_clusters 3))"
proof -
  have h: "selectedRows (list_view_init (sample_clusters 3)) = []"
    by (simp add: list_view_init_def)
  from C4_batch_delete_empty_selection [OF h, of Confirmed] h show ?thesis by simp
qed




section \<open>Properties of the detail view\<close>

text \<open>
  Claim C6. When no record of the collection has the identifier of the route, the
  resolver yields \<open>None\<close> (the \<open>undefined\<close> of \<open>find\<close>), the view renders the \<open>el-result\<close>
  and not the record page, and that result offers one button, bound to \<open>handleBack\<close>,
  which pushes the route \<open>/cluster\<close> of the list.
\<close>

theorem C6_not_found:
  assumes "\<forall>c \<in> set mockClusters. Param_string (id_field c) \<noteq> route_params_id"
  shows "cluster mockClusters route_params_id = None
         \<and> render_detail mockClusters mockNodes mockPods mockEvents route_params_id
             = El_result [HandleBack]
         \<and> handleBack = [Router_push ''/cluster'']"
proof -
  from assms have "cluster mockClusters route_params_id = None"
    by (simp add: cluster_def find_None_iff)
  then show ?thesis
    by (simp add: render_detail_def handleBack_def)
qed

text \<open>C6 on three clusters and an identifier none of them has.\<close>

theorem C6_not_found_witness:
  "Param_string ''cluster-x'' \<notin> set (map (\<lambda>c. Param_string (id_field c)) (sample_clusters 3))
   \<and> cluster (sample_clusters 3) (Param_string ''cluster-x'') = None
   \<and> render_detail (sample_clusters 3) sample_nodes sample_pods sample_events
        (Param_string ''cluster-x'') = El_result [HandleBack]"
proof -
  have h: "\<forall>c \<in> set (sample_clusters 3). Param_string (id_field c) \<noteq> Param_string ''cluster-x''"
    by (simp add: sample_clusters_def sample_cluster_def upt_rec)
  have n: "Param_string ''cluster-x'' \<notin> set (map (\<lambda>c. Param_string (id_field c)) (sample_clusters 3))"
    by (simp add: sample_clusters_def sample_cluster_def upt_rec)
  from C6_not_found [OF h, of sample_nodes sample_pods sample_events] n show ?thesis by simp
qed

text \<open>
  Claim C9. For any two identifiers the resolver finds, the nodes, pods and events panes
  of both rendered pages are the collections \<open>mockNodes\<close>, \<open>mockPods\<close> and \<open>mockEvents\<close>:
  they do not depend on the record.
\<close>

theorem C9_panes_independent_of_cluster:
  assumes "cluster mockClusters id1 = Some c1" and "cluster mockClusters id2 = Some c2"
  shows "rendered_nodes (render_detail mockClusters mockNodes mockPods mockEvents id1) = Some mockNodes
         \<and> rendered_nodes (render_detail mockClusters mockNodes mockPods mockEvents id2) = Some mockNodes
         \<and> rendered_pods (render_detail mockClusters mockNodes mockPods mockEvents id1) = Some mockPods
         \<and> rendered_pods (render_detail mockClusters mockNodes mockPods mockEvents id2) = Some mockPods
         \<and> rendered_events (render_detail mockClusters mockNodes mockPods mockEvents id1) = Some mockEvents
         \<and> rendered_events (render_detail mockClusters mockNodes mockPods mockEvents id2) = Some mockEvents"
  using assms by (simp add: render_detail_def)

text \<open>C9 on the first and the third of three clusters, which are different records.\<close>

theorem C9_panes_witness:
  "cluster (sample_clusters 3) (Param_string ''cluster-'') = Some (sample_cluster 0)
   \<and> cluster (sample_clusters 3) (Param_string ''cluster-ii'') = Some (sample_cluster 2)
   \<and> sample_cluster 0 \<noteq> sample_cluster 2
   \<and> rendered_nodes (render_detail (sample_clusters 3) sample_nodes sample_pods sample_events
        (Param_string ''cluster-''))
     = rendered_nodes (render_detail (sample_clusters 3) sample_nodes sample_pods sample_events
        (Param_string ''cluster-ii''))
   \<and> rendered_pods (render_detail (sample_clusters 3) sample_nodes sample_pods sample_events
        (Param_string ''cluster-''))
     = rendered_pods (render_detail (sample_clusters 3) sample_nodes sample_pods sample_events
        (Param_string ''cluster-ii''))
   \<and> rendered_events (render_detail (sample_clusters 3) sample_nodes sample_pods sample_events
        (Param_string ''cluster-''))
     = rendered_events (render_detail (sample_clusters 3) sample_nodes sample_pods sample_events
        (Param_string ''cluster-ii''))"
proof -
  have h1: "cluster (sample_clusters 3) (Param_string ''cluster-'') = Some (sample_cluster 0)"
    by (simp add: cluster_def sample_clusters_def sample_cluster_def upt_rec)
  have h2: "cluster (sample_clusters 3) (Param_string ''cluster-ii'') = Some (sample_cluster 2)"
    by (simp add: cluster_def sample_clusters_def sample_cluster_def upt_rec numeral_2_eq_2)
  have d: "sample_cluster 0 \<noteq> sample_cluster 2"
    by (simp add: sample_cluster_def)
  from C9_panes_independent_of_cluster [OF h1 h2, of sample_nodes sample_pods sample_events] h1 h2 d
  show ?thesis by simp
qed

section \<open>Properties of the status tags\<close>

text \<open>Neither version of \<open>getStatusType\<close> returns \<open>undefined\<close>.\<close>

lemma getStatusType_never_undefined:
  "getStatusType_list st \<noteq> JsUndefined \<and> getStatusType_detail st \<noteq> JsUndefined"
  by (cases "js_get status_map_list st"; cases "js_get status_map_detail st")
     (simp_all add: getStatusType_list_def getStatusType_detail_def js_or_def)

text \<open>Every key of the table of the list view gets its mapped tag type.\<close>

lemma getStatusType_list_mapped:
  assumes "map_of status_map_list st = Some ty"
  shows "getStatusType_list st = JsString ty"
  using assms
  by (auto simp: getStatusType_list_def status_map_list_def js_or_def js_get_def split: if_splits)

text \<open>
  A string that is no key of the table and no member of \<open>Object.prototype\<close> gets the
  fallback.
\<close>

lemma getStatusType_fallback:
  assumes "st \<notin> set object_prototype_members"
  shows "map_of status_map_list st = None \<Longrightarrow> getStatusType_list st = JsString ''info''"
    and "map_of status_map_detail st = None \<Longrightarrow> getStatusType_detail st = JsString ''info''"
  using assms by (simp_all add: getStatusType_list_def getStatusType_detail_def js_or_def js_get_def)

text \<open>
  Claim C10, at strings the code can receive. The table of the detail view maps
  \<open>Succeeded\<close> and \<open>worker\<close> to the empty tag type, and \<open>getStatusType\<close> returns \<open>info\<close>
  for both: the empty string is falsy, so \<open>||\<close> replaces it by the fallback. The string
  \<open>constructor\<close> is a key of neither table, and both versions return the member the
  table object inherits under that name, not the fallback.
\<close>

theorem C10_mapped_empty_type_lost:
  "map_of status_map_detail ''Succeeded'' = Some []
   \<and> getStatusType_detail ''Succeeded'' = JsString ''info''
   \<and> map_of status_map_detail ''worker'' = Some []
   \<and> getStatusType_detail ''worker'' = JsString ''info''
   \<and> map_of status_map_detail ''constructor'' = None
   \<and> getStatusType_detail ''constructor'' = JsInherited ''constructor''
   \<and> map_of status_map_list ''constructor'' = None
   \<and> getStatusType_list ''constructor'' = JsInherited ''constructor''"
  by (simp add: getStatusType_detail_def getStatusType_list_def status_map_detail_def
      status_map_list_def js_or_def js_get_def object_prototype_members_def)

section \<open>Properties of the dashboard\<close>

text \<open>Switching off cancels the interval the component remembers.\<close>

lemma auto_refresh_off_cancels:
  assumes "refreshTimer d = Some t" and "t \<noteq> 0"
  shows "intervals (handleAutoRefreshChange False d) = removeAll t (intervals d)
         \<and> refreshTimer (handleAutoRefreshChange False d) = None"
  using assms by (simp add: handleAutoRefreshChange_def clearInterval_def)

text \<open>Switching on registers one more interval and clears none, in every state.\<close>

lemma auto_refresh_on_adds_interval:
  "intervals (handleAutoRefreshChange True d) = intervals d @ [next_timer_id d]
   \<and> refreshTimer (handleAutoRefreshChange True d) = Some (next_timer_id d)"
  by (simp add: handleAutoRefreshChange_def setInterval_def)


text \<open>
  Claim C8. \<open>refreshData\<close> sets the loading flag before it suspends, and when it resumes
  in any state the flag is false afterwards, whether \<open>initCharts\<close> returns (the promise
  resolves) or throws (the promise rejects): the reset is in the \<open>finally\<close> block. The
  refresh and search handlers of the list view and the refresh handler of the detail
  view set their flag and register a timeout, and the callback of that timeout sets the
  flag to false in any state it runs in.
\<close>

theorem C8_loading_reset:
  "dash_loading (refreshData_begin d) = True
   \<and> dash_loading (snd (refreshData_resume r1 r2 r3 r4 initCharts_throws d')) = False
   \<and> fst (refreshData_resume r1 r2 r3 r4 True d') = Inl Chart_error
   \<and> fst (refreshData_resume r1 r2 r3 r4 False d') = Inr ()
   \<and> loading (handleRefresh v) = True
   \<and> timeouts (handleRefresh v) = timeouts v @ [Refresh_done]
   \<and> loading (handleSearch v) = True
   \<and> timeouts (handleSearch v) = timeouts v @ [Search_done]
   \<and> loading (snd (run_callback cb v')) = False
   \<and> detail_loading (handleRefresh_detail w) = True
   \<and> detail_timeouts (handleRefresh_detail w) = Suc (detail_timeouts w)
   \<and> detail_loading (snd (handleRefresh_detail_timeout w')) = False"
  by (cases cb) (simp_all add: refreshData_begin_def refreshData_resume_def handleRefresh_def
      handleSearch_def handleRefresh_detail_def handleRefresh_detail_timeout_def)

end
